theory Spec2Isabelle
  imports Main "HOL-Library.Word"
begin

section \<open>The cluster ring of the topology package\<close>

text \<open>
  A shallow embedding of \<^verbatim>\<open>ClusterRing\<close> and of the part of \<^verbatim>\<open>Node\<close> the ring reads.
  Go's \<^verbatim>\<open>int\<close> is modelled as \<^typ>\<open>int\<close>; the one addition of the ring that can leave
  the 64-bit range (\<^verbatim>\<open>n.GetId()+1\<close> in \<^verbatim>\<open>Add\<close>) has its wrap-around written out.
  Slices are lists, a nil interface value is \<^term>\<open>None\<close>, and a run-time panic is the
  left summand of a result. Allocation limits of \<^verbatim>\<open>make\<close> are not modelled.
\<close>

subsection \<open>Data model\<close>

text \<open>
  \<^verbatim>\<open>Node\<close> is an interface; the ring calls only \<^verbatim>\<open>GetId\<close> and \<^verbatim>\<open>GetAddress\<close>. A
  node is modelled by what its getters return, the getters being taken to return. The
  shard-status map of the concrete \<^verbatim>\<open>node\<close> struct is never read by the ring and is
  left out.
\<close>

record Node =
  GetId :: int
  GetNetwork :: string
  GetAddress :: string
  GetAdminAddress :: string

record ClusterRing =
  keyspace :: string
  dataCenter :: string
  nodes :: "Node option list"
  expectedSize :: int
  nextSize :: int
  replicationFactor :: int

datatype panic = IndexOutOfRange

text \<open>
  The type of an access option is declared in another file of the package; its shape is
  read off the call \<^verbatim>\<open>index, replica = option(index, clusterSize)\<close>. Options are
  taken to be pure functions.
\<close>

type_synonym AccessOption = "int \<Rightarrow> int \<Rightarrow> int \<times> int"

subsection \<open>Construction and membership\<close>

definition NewHashRing :: "string \<Rightarrow> string \<Rightarrow> int \<Rightarrow> int \<Rightarrow> ClusterRing" where
  "NewHashRing ks dc es rf =
     \<lparr>keyspace = ks, dataCenter = dc, nodes = [], expectedSize = es, nextSize = 0,
      replicationFactor = rf\<rparr>"

text \<open>Go's \<^verbatim>\<open>int\<close> addition on a 64-bit platform: the sum is reduced to the signed range.\<close>

definition add_int64 :: "int \<Rightarrow> int \<Rightarrow> int" where
  "add_int64 a b = signed_take_bit 63 (a + b)"

text \<open>
  The builtin \<^verbatim>\<open>copy(dst, src)\<close>: the first \<open>min (len dst) (len src)\<close> elements of
  \<open>dst\<close> are overwritten.
\<close>

definition copy_slice :: "'a list \<Rightarrow> 'a list \<Rightarrow> 'a list" where
  "copy_slice dst src =
     take (min (length dst) (length src)) src @ drop (min (length dst) (length src)) dst"

text \<open>
  \<^verbatim>\<open>Add\<close>: the registry is reallocated when it is shorter than \<^verbatim>\<open>n.GetId()+1\<close>; the
  store at \<^verbatim>\<open>cluster.nodes[n.GetId()]\<close> panics when the index is negative or not below
  the length.
\<close>

definition Add :: "ClusterRing \<Rightarrow> Node \<Rightarrow> panic + ClusterRing" where
  "Add cluster n =
     (let grown =
            (if int (length (nodes cluster)) < add_int64 (GetId n) 1
             then (let capacity = add_int64 (GetId n) 1
                   in copy_slice (replicate (nat capacity) None) (nodes cluster))
             else nodes cluster)
      in if GetId n < 0 \<or> int (length grown) \<le> GetId n then Inl IndexOutOfRange
         else Inr (cluster\<lparr>nodes := grown[nat (GetId n) := Some n]\<rparr>))"

text \<open>
  \<^verbatim>\<open>Remove\<close> tests only \<^verbatim>\<open>nodeId < len(cluster.nodes)\<close>; a negative \<^verbatim>\<open>nodeId\<close> passes
  the test and the read \<^verbatim>\<open>cluster.nodes[nodeId]\<close> panics.
\<close>

definition Remove :: "ClusterRing \<Rightarrow> int \<Rightarrow> panic + (Node option \<times> ClusterRing)" where
  "Remove cluster nodeId =
     (if nodeId < int (length (nodes cluster))
      then (if nodeId < 0 then Inl IndexOutOfRange
            else Inr (nodes cluster ! nat nodeId,
                      cluster\<lparr>nodes := (nodes cluster)[nat nodeId := None]\<rparr>))
      else Inr (None, cluster))"

subsection \<open>Partition resolution\<close>

text \<open>
  \<^verbatim>\<open>jump.Hash\<close> belongs to the imported package \<^verbatim>\<open>github.com/dgryski/go-jump\<close>; it
  is a parameter of the two bucket functions, which convert its result to \<^verbatim>\<open>int\<close>.
\<close>

definition FindBucketGivenSize ::
  "(64 word \<Rightarrow> int \<Rightarrow> int) \<Rightarrow> ClusterRing \<Rightarrow> 64 word \<Rightarrow> int \<Rightarrow> int" where
  "FindBucketGivenSize jump_Hash cluster keyHash sz = jump_Hash keyHash sz"

definition ExpectedSize :: "ClusterRing \<Rightarrow> int" where
  "ExpectedSize cluster = expectedSize cluster"

definition NextSize :: "ClusterRing \<Rightarrow> int" where
  "NextSize cluster = nextSize cluster"

definition ReplicationFactor :: "ClusterRing \<Rightarrow> int" where
  "ReplicationFactor cluster = replicationFactor cluster"

definition FindBucket :: "(64 word \<Rightarrow> int \<Rightarrow> int) \<Rightarrow> ClusterRing \<Rightarrow> 64 word \<Rightarrow> int" where
  "FindBucket jump_Hash cluster keyHash = jump_Hash keyHash (ExpectedSize cluster)"

definition SetExpectedSize :: "ClusterRing \<Rightarrow> int \<Rightarrow> ClusterRing" where
  "SetExpectedSize cluster es = (if es > 0 then cluster\<lparr>expectedSize := es\<rparr> else cluster)"

definition SetNextSize :: "ClusterRing \<Rightarrow> int \<Rightarrow> ClusterRing" where
  "SetNextSize cluster ns = cluster\<lparr>nextSize := ns\<rparr>"

definition SetReplicationFactor :: "ClusterRing \<Rightarrow> int \<Rightarrow> ClusterRing" where
  "SetReplicationFactor cluster rf =
     (if rf > 0 then cluster\<lparr>replicationFactor := rf\<rparr> else cluster)"

text \<open>
  The test \<^verbatim>\<open>n == nil || n.GetAddress() == ""\<close>, written three times in the source.
\<close>

definition unoccupied :: "Node option \<Rightarrow> bool" where
  "unoccupied n = (case n of None \<Rightarrow> True | Some m \<Rightarrow> GetAddress m = [])"

text \<open>
  \<^verbatim>\<open>CurrentSize\<close>: the loop \<^verbatim>\<open>for i := len(cluster.nodes); i > 0; i--\<close>; the second
  argument of the loop function is \<open>i\<close>, and \<open>Suc k\<close> reads slot \<open>k = i - 1\<close>.
\<close>

fun CurrentSize_loop :: "Node option list \<Rightarrow> nat \<Rightarrow> int" where
  "CurrentSize_loop ns 0 = 0"
| "CurrentSize_loop ns (Suc k) =
     (if unoccupied (ns ! k) then CurrentSize_loop ns k else int (Suc k))"

definition CurrentSize :: "ClusterRing \<Rightarrow> int" where
  "CurrentSize cluster = CurrentSize_loop (nodes cluster) (length (nodes cluster))"

text \<open>
  \<^verbatim>\<open>GetNode\<close>: the loop over the options reassigns both \<open>index\<close> and \<open>replica\<close> from
  each call \<^verbatim>\<open>option(index, clusterSize)\<close>.
\<close>

fun GetNode_options :: "AccessOption list \<Rightarrow> int \<Rightarrow> int \<times> int \<Rightarrow> int \<times> int" where
  "GetNode_options [] clusterSize (index, replica) = (index, replica)"
| "GetNode_options (opt # opts) clusterSize (index, replica) =
     GetNode_options opts clusterSize (opt index clusterSize)"

definition GetNode :: "ClusterRing \<Rightarrow> int \<Rightarrow> AccessOption list \<Rightarrow> Node option \<times> int \<times> bool" where
  "GetNode cluster index0 opts =
     (let clusterSize = int (length (nodes cluster));
          (index, replica) = GetNode_options opts clusterSize (index0, 0)
      in if index < 0 \<or> index \<ge> int (length (nodes cluster)) then (None, 0, False)
         else if nodes cluster ! nat index = None then (None, 0, False)
         else (nodes cluster ! nat index, replica, True))"

subsection \<open>Missing and free slots\<close>

text \<open>The slot read guarded by \<^verbatim>\<open>i < len(cluster.nodes)\<close>, nil otherwise.\<close>

definition slot_at :: "ClusterRing \<Rightarrow> nat \<Rightarrow> Node option" where
  "slot_at cluster i = (if i < length (nodes cluster) then nodes cluster ! i else None)"

definition MissingAndFree_body ::
  "ClusterRing \<Rightarrow> int \<Rightarrow> nat \<Rightarrow> int list \<times> int list \<Rightarrow> int list \<times> int list" where
  "MissingAndFree_body cluster currentClusterSize i acc =
     (case acc of (missingList, freeList) \<Rightarrow>
        if unoccupied (slot_at cluster i)
        then (if int i < currentClusterSize then (missingList @ [int i], freeList)
              else (missingList, freeList))
        else (if int i \<ge> currentClusterSize then (missingList, freeList @ [int i])
              else (missingList, freeList)))"

definition MissingAndFreeNodeIds :: "ClusterRing \<Rightarrow> int list \<times> int list" where
  "MissingAndFreeNodeIds cluster =
     (let len = int (length (nodes cluster));
          currentClusterSize = CurrentSize cluster;
          mx = (if len < currentClusterSize then currentClusterSize else len)
      in fold (MissingAndFree_body cluster currentClusterSize) [0..<nat mx] ([], []))"

subsection \<open>Diagnostic rendering\<close>

text \<open>
  \<^verbatim>\<open>fmt.Sprintf\<close> is Go's standard library: \<^verbatim>\<open>%d\<close> prints a signed decimal, and
  \<^verbatim>\<open>%v\<close> prints a slice of ints between brackets, separated by single spaces.
\<close>

fun digits :: "nat \<Rightarrow> string" where
  "digits n =
     (if n < 10 then [''0123456789'' ! n]
      else digits (n div 10) @ [''0123456789'' ! (n mod 10)])"

declare digits.simps [simp del]

definition fmt_d :: "int \<Rightarrow> string" where
  "fmt_d k = (if k < 0 then CHR ''-'' # digits (nat (- k)) else digits (nat k))"

fun join_ints :: "int list \<Rightarrow> string" where
  "join_ints [] = []"
| "join_ints [x] = fmt_d x"
| "join_ints (x # y # ys) = fmt_d x @ '' '' @ join_ints (y # ys)"

definition fmt_v :: "int list \<Rightarrow> string" where
  "fmt_v xs = ''['' @ join_ints xs @ '']''"

definition String_body :: "ClusterRing \<Rightarrow> int \<Rightarrow> nat \<Rightarrow> string \<Rightarrow> string" where
  "String_body cluster nodeCount i output =
     (let sep = (if i \<noteq> 0 then output @ '' '' else output);
          hole = (if int i < expectedSize cluster \<or> int i < nodeCount then sep @ ''_''
                  else output)
      in case slot_at cluster i of
           None \<Rightarrow> hole
         | Some n \<Rightarrow> if GetAddress n = [] then hole else sep @ fmt_d (GetId n))"

definition String :: "ClusterRing \<Rightarrow> string" where
  "String cluster =
     (let nodeCount = CurrentSize cluster;
          len = int (length (nodes cluster));
          mx = (if len < expectedSize cluster then expectedSize cluster else len);
          slots = fold (String_body cluster nodeCount) [0..<nat mx] ''['' @ '']'';
          sized =
            (if nextSize cluster = 0
             then (if CurrentSize cluster \<noteq> expectedSize cluster \<and> expectedSize cluster \<noteq> 0
                   then slots @ '' size '' @ fmt_d (CurrentSize cluster) @ ''->''
                          @ fmt_d (expectedSize cluster) @ '' ''
                   else slots @ '' size '' @ fmt_d (CurrentSize cluster) @ '' '')
             else slots @ '' size '' @ fmt_d (CurrentSize cluster) @ ''=>''
                    @ fmt_d (nextSize cluster) @ '' '');
          (missingList, freeList) = MissingAndFreeNodeIds cluster
      in if length missingList > 0 \<or> length freeList > 0
         then sized @ ''(''
              @ (if length missingList > 0
                 then fmt_d (int (length missingList)) @ '' missing '' @ fmt_v missingList
                 else [])
              @ (if length freeList > 0
                 then (if length missingList > 0 then '', '' else [])
                      @ fmt_d (int (length freeList)) @ '' free '' @ fmt_v freeList
                 else [])
              @ '')''
         else sized)"

subsection \<open>Example rings\<close>

definition mk_node :: "int \<Rightarrow> string \<Rightarrow> Node" where
  "mk_node i addr = \<lparr>GetId = i, GetNetwork = ''tcp'', GetAddress = addr, GetAdminAddress = addr\<rparr>"

definition ring024 :: ClusterRing where
  "ring024 = \<lparr>keyspace = ''ks'', dataCenter = ''dc'',
      nodes = [Some (mk_node 0 ''a''), None, Some (mk_node 2 ''c''), None, Some (mk_node 4 ''e'')],
      expectedSize = 5, nextSize = 0, replicationFactor = 1\<rparr>"

definition ring02 :: ClusterRing where
  "ring02 = \<lparr>keyspace = ''ks'', dataCenter = ''dc'',
      nodes = [Some (mk_node 0 ''a''), None, Some (mk_node 2 ''c'')],
      expectedSize = 3, nextSize = 0, replicationFactor = 1\<rparr>"

text \<open>A ring whose only slot holds a node that has no client address.\<close>

definition ring_noaddr :: ClusterRing where
  "ring_noaddr = \<lparr>keyspace = ''ks'', dataCenter = ''dc'',
      nodes = [Some (mk_node 0 [])],
      expectedSize = 1, nextSize = 0, replicationFactor = 1\<rparr>"

text \<open>An access option: the next slot around the ring, as the first replica.\<close>

definition opt_next :: AccessOption where
  "opt_next i n = ((i + 1) mod n, 1)"

subsection \<open>Reachable rings\<close>

text \<open>The rings a caller can build: a new ring, then calls of Add and Remove that return.\<close>

inductive reachable :: "ClusterRing \<Rightarrow> bool" where
  new: "reachable (NewHashRing ks dc es rf)"
| add: "reachable r \<Longrightarrow> Add r n = Inr r' \<Longrightarrow> reachable r'"
| remove: "reachable r \<Longrightarrow> Remove r i = Inr (res, r') \<Longrightarrow> reachable r'"

section \<open>Properties\<close>

subsection \<open>Membership: Add and Remove\<close>

lemma Add_first:
  "GetId n0 = 0 \<Longrightarrow> Add (NewHashRing ks dc es rf) n0 = Inr ((NewHashRing ks dc es rf)\<lparr>nodes := [Some n0]\<rparr>)"
  by (simp add: Add_def NewHashRing_def add_int64_def copy_slice_def)

lemma Add_third:
  "GetId n2 = 2 \<Longrightarrow> nodes r = [a] \<Longrightarrow> Add r n2 = Inr (r\<lparr>nodes := [a, None, Some n2]\<rparr>)"
  by (simp add: Add_def add_int64_def copy_slice_def eval_nat_numeral)












lemma Remove_negative: "nodeId < 0 \<Longrightarrow> Remove r nodeId = Inl IndexOutOfRange"
  by (simp add: Remove_def)

text \<open>
  Claim C7, the failing input. On the ring with nodes at slots 0 and 2, Remove(-1) passes
  the test \<^verbatim>\<open>nodeId < len(cluster.nodes)\<close> and panics at the slot read, while GetNode(-1),
  which tests \<^verbatim>\<open>index < 0\<close> first, answers not-found.
\<close>

theorem Remove_negative_panics:
  "Remove ring02 (- 1) = Inl IndexOutOfRange \<and> GetNode ring02 (- 1) [] = (None, 0, False)"
  by (simp add: Remove_def GetNode_def ring02_def)

subsection \<open>GetNode\<close>

text \<open>
  Claim C1, as amended. GetNode tests the slot for nil only and never reads the client
  address: for an index within the registry whose slot holds a node with an empty client
  address, GetNode with no options returns that node, replica offset 0 and true; only an
  absent slot gives not-found (no node, 0, false).
\<close>

theorem GetNode_addressless:
  "0 \<le> i \<and> i < int (length (nodes r)) \<longrightarrow>
     (nodes r ! nat i = Some n \<and> GetAddress n = [] \<longrightarrow> GetNode r i [] = (Some n, 0, True)) \<and>
     (nodes r ! nat i = None \<longrightarrow> GetNode r i [] = (None, 0, False))"
  by (simp add: GetNode_def)

theorem GetNode_addressless_witness:
  "GetNode ring_noaddr 0 [] = (Some (mk_node 0 []), 0, True) \<and>
   GetNode ring02 1 [] = (None, 0, False)"
  using GetNode_addressless [of 0 ring_noaddr "mk_node 0 []"]
    GetNode_addressless [of 1 ring02 "mk_node 0 []"]
  by (simp add: ring_noaddr_def ring02_def mk_node_def)

theorem GetNode_addressless_counterexample:
  "(0::int) \<le> 0 \<and> 0 < int (length (nodes ring_noaddr)) \<and>
   nodes ring_noaddr ! nat 0 = Some (mk_node 0 []) \<and> GetAddress (mk_node 0 []) = [] \<and>
   GetNode ring_noaddr 0 [] \<noteq> (None, 0, False)"
  by (simp add: GetNode_def ring_noaddr_def mk_node_def)

lemma GetNode_options_foldl:
  "GetNode_options opts cs p = foldl (\<lambda>q opt. opt (fst q) cs) p opts"
  by (induction opts cs p rule: GetNode_options.induct) simp_all

text \<open>
  Claim C2. GetNode feeds the options one after the other, from the left: each receives the
  index left by its predecessor together with the registry's slot count, and yields the
  next index and replica offset; the start is the given index with replica offset 0. If the
  final index is negative, not below the slot count, or names an absent slot, the result
  is (no node, 0, false); otherwise it is the node there, the final replica offset, and
  true.
\<close>

theorem GetNode_applies_options:
  "GetNode r index opts =
     (case foldl (\<lambda>q opt. opt (fst q) (int (length (nodes r)))) (index, 0) opts of
        (i, rep) \<Rightarrow>
          if i < 0 \<or> int (length (nodes r)) \<le> i then (None, 0, False)
          else (case nodes r ! nat i of None \<Rightarrow> (None, 0, False)
                | Some n \<Rightarrow> (Some n, rep, True)))"
  by (auto simp: GetNode_def GetNode_options_foldl split: prod.split option.split)

theorem GetNode_applies_options_witness:
  "GetNode ring02 1 [opt_next, opt_next] = (Some (mk_node 0 ''a''), 1, True) \<and>
   GetNode ring02 0 [opt_next] = (None, 0, False) \<and>
   GetNode ring02 2 [] = (Some (mk_node 2 ''c''), 0, True) \<and>
   GetNode ring02 3 [] = (None, 0, False)"
  using GetNode_applies_options [of ring02 1 "[opt_next, opt_next]"]
    GetNode_applies_options [of ring02 0 "[opt_next]"]
    GetNode_applies_options [of ring02 2 "[]"]
    GetNode_applies_options [of ring02 3 "[]"]
  by (simp add: ring02_def opt_next_def)

subsection \<open>The size loop and the missing/free scan\<close>

lemma CurrentSize_loop_top:
  "i < k \<Longrightarrow> \<not> unoccupied (ns ! i) \<Longrightarrow> (\<forall>j. i < j \<and> j < k \<longrightarrow> unoccupied (ns ! j))
     \<Longrightarrow> CurrentSize_loop ns k = int (Suc i)"
proof (induction k)
  case 0
  then show ?case by simp
next
  case (Suc k)
  show ?case
  proof (cases "i = k")
    case True
    with Suc.prems show ?thesis by simp
  next
    case False
    with Suc.prems have "i < k" and "unoccupied (ns ! k)" by auto
    with Suc show ?thesis by simp
  qed
qed

lemma CurrentSize_loop_none:
  "(\<forall>j<k. unoccupied (ns ! j)) \<Longrightarrow> CurrentSize_loop ns k = 0"
  by (induction k) simp_all

lemma CurrentSize_loop_above:
  "i < k \<Longrightarrow> \<not> unoccupied (ns ! i) \<Longrightarrow> int i < CurrentSize_loop ns k"
  by (induction k) (auto simp: less_Suc_eq)

lemma CurrentSize_loop_le: "CurrentSize_loop ns k \<le> int k"
  by (induction k) auto

lemma CurrentSize_loop_nonneg: "0 \<le> CurrentSize_loop ns k"
  by (induction k) auto

lemma MissingAndFree_fold:
  "fold (MissingAndFree_body c s) [0..<m] ([], []) =
     (map int (filter (\<lambda>i. unoccupied (slot_at c i) \<and> int i < s) [0..<m]),
      map int (filter (\<lambda>i. \<not> unoccupied (slot_at c i) \<and> s \<le> int i) [0..<m]))"
  by (induction m) (auto simp: MissingAndFree_body_def)

lemma occupied_below_CurrentSize:
  "\<not> unoccupied (slot_at c i) \<Longrightarrow> int i < CurrentSize c"
  by (cases "i < length (nodes c)")
     (auto simp: slot_at_def CurrentSize_def unoccupied_def intro: CurrentSize_loop_above)

lemma MissingAndFree_mx:
  "(if int (length (nodes c)) < CurrentSize c then CurrentSize c else int (length (nodes c)))
     = int (length (nodes c))"
  using CurrentSize_loop_le [of "nodes c" "length (nodes c)"] by (simp add: CurrentSize_def)

lemma MissingAndFreeNodeIds_eq:
  "MissingAndFreeNodeIds c =
     (map int (filter (\<lambda>i. unoccupied (nodes c ! i) \<and> int i < CurrentSize c) [0..<length (nodes c)]), [])"
proof -
  have "filter (\<lambda>i. \<not> unoccupied (slot_at c i) \<and> CurrentSize c \<le> int i) [0..<length (nodes c)] = []"
    by (fastforce simp: filter_empty_conv dest: occupied_below_CurrentSize)
  moreover have "filter (\<lambda>i. unoccupied (slot_at c i) \<and> int i < CurrentSize c) [0..<length (nodes c)]
    = filter (\<lambda>i. unoccupied (nodes c ! i) \<and> int i < CurrentSize c) [0..<length (nodes c)]"
    by (rule filter_cong) (auto simp: slot_at_def)
  ultimately show ?thesis
    by (simp add: MissingAndFreeNodeIds_def Let_def MissingAndFree_mx MissingAndFree_fold)
qed

text \<open>
  Claim C5. CurrentSize is 0 when no slot is occupied, and one plus the index of the
  highest occupied slot otherwise, whatever lies below that slot; adding nodes with ids 0
  and 2 to a new ring gives the registry \<open>[n0, nil, n2]\<close> and current size 3.
\<close>

theorem CurrentSize_highest_occupied:
  "((\<forall>j<length (nodes r). unoccupied (nodes r ! j)) \<longrightarrow> CurrentSize r = 0) \<and>
   (i < length (nodes r) \<and> \<not> unoccupied (nodes r ! i) \<and>
      (\<forall>j. i < j \<and> j < length (nodes r) \<longrightarrow> unoccupied (nodes r ! j))
      \<longrightarrow> CurrentSize r = int i + 1) \<and>
   (GetId n0 = 0 \<and> GetId n2 = 2 \<and> GetAddress n0 \<noteq> [] \<and> GetAddress n2 \<noteq> [] \<longrightarrow>
      (\<exists>r1 r2. Add (NewHashRing ks dc es rf) n0 = Inr r1 \<and> Add r1 n2 = Inr r2 \<and>
         nodes r2 = [Some n0, None, Some n2] \<and> CurrentSize r2 = 3))"
proof (intro conjI impI)
  assume "\<forall>j<length (nodes r). unoccupied (nodes r ! j)"
  then show "CurrentSize r = 0"
    by (simp add: CurrentSize_def CurrentSize_loop_none)
next
  assume "i < length (nodes r) \<and> \<not> unoccupied (nodes r ! i) \<and>
      (\<forall>j. i < j \<and> j < length (nodes r) \<longrightarrow> unoccupied (nodes r ! j))"
  then show "CurrentSize r = int i + 1"
    using CurrentSize_loop_top [of i "length (nodes r)" "nodes r"] by (simp add: CurrentSize_def)
next
  assume a: "GetId n0 = 0 \<and> GetId n2 = 2 \<and> GetAddress n0 \<noteq> [] \<and> GetAddress n2 \<noteq> []"
  let ?r1 = "(NewHashRing ks dc es rf)\<lparr>nodes := [Some n0]\<rparr>"
  let ?r2 = "?r1\<lparr>nodes := [Some n0, None, Some n2]\<rparr>"
  have 1: "Add (NewHashRing ks dc es rf) n0 = Inr ?r1"
    using a by (simp add: Add_first)
  have 2: "Add ?r1 n2 = Inr ?r2"
    using a by (simp add: Add_third)
  have 3: "CurrentSize ?r2 = 3"
    using a by (simp add: CurrentSize_def unoccupied_def)
  from 1 2 3 show "\<exists>r1 r2. Add (NewHashRing ks dc es rf) n0 = Inr r1 \<and> Add r1 n2 = Inr r2 \<and>
         nodes r2 = [Some n0, None, Some n2] \<and> CurrentSize r2 = 3"
    by (intro exI [of _ ?r1] exI [of _ ?r2]) simp
qed

theorem CurrentSize_highest_occupied_witness:
  "CurrentSize (NewHashRing ''ks'' ''dc'' 3 1) = 0 \<and> CurrentSize ring02 = 3 \<and>
   (\<exists>r1 r2. Add (NewHashRing ''ks'' ''dc'' 3 1) (mk_node 0 ''a'') = Inr r1 \<and>
      Add r1 (mk_node 2 ''c'') = Inr r2 \<and>
      nodes r2 = [Some (mk_node 0 ''a''), None, Some (mk_node 2 ''c'')] \<and> CurrentSize r2 = 3)"
  using CurrentSize_highest_occupied [of "NewHashRing ''ks'' ''dc'' 3 1" 0 "mk_node 0 ''a''" "mk_node 2 ''c''" "''ks''" "''dc''" 3 1]
    CurrentSize_highest_occupied [of ring02 2 "mk_node 0 ''a''" "mk_node 2 ''c''" "''ks''" "''dc''" 3 1]
  by (simp add: NewHashRing_def ring02_def mk_node_def unoccupied_def)

lemma index_set_filter: "{i. i < n \<and> Q i} = set (filter Q [0..<n])"
  by auto

lemma ring024_occupied: "{i. i < length (nodes ring024) \<and> \<not> unoccupied (nodes ring024 ! i)} = {0, 2, 4}"
    by (simp add: index_set_filter ring024_def unoccupied_def mk_node_def upt_rec eval_nat_numeral)

lemma upt_split_filter:
  assumes "k \<le> m" and "\<And>i. P i \<Longrightarrow> i < k"
  shows "filter P [0..<m] = filter P [0..<k]"
proof -
  have "[0..<m] = [0..<k] @ [k..<m]"
    using assms(1) upt_add_eq_append [of 0 k "m - k"] by simp
  moreover have "filter P [k..<m] = []"
    using assms(2) by (fastforce simp: filter_empty_conv)
  ultimately show ?thesis by simp
qed


lemma occupied_set_member:
  assumes "{i. i < length ns \<and> \<not> unoccupied (ns ! i)} = S" and "j \<in> S"
  shows "j < length ns \<and> \<not> unoccupied (ns ! j)"
proof -
  from assms have "j \<in> {i. i < length ns \<and> \<not> unoccupied (ns ! i)}"
    by (simp only:)
  then show ?thesis by simp
qed

lemma occupied_set_nonmember:
  assumes "{i. i < length ns \<and> \<not> unoccupied (ns ! i)} = S" and "j \<notin> S" and "j < length ns"
  shows "unoccupied (ns ! j)"
proof (rule ccontr)
  assume "\<not> unoccupied (ns ! j)"
  with assms(3) have "j \<in> {i. i < length ns \<and> \<not> unoccupied (ns ! i)}"
    by simp
  then have "j \<in> S" by (simp only: assms(1))
  with assms(2) show False by simp
qed

text \<open>
  Claim C3, as amended. For a ring whose occupied slots are exactly 0, 2 and 4 the current
  size is 5 (one more than the highest occupied slot), the missing slots are 1 and 3, and
  no slot is free.
\<close>

theorem occupied_024:
  assumes occ: "{i. i < length (nodes r) \<and> \<not> unoccupied (nodes r ! i)} = {0, 2, 4}"
  shows "CurrentSize r = 5 \<and> MissingAndFreeNodeIds r = ([1, 3], [])"
proof -
  have len: "4 < length (nodes r)" and o4: "\<not> unoccupied (nodes r ! 4)"
    using occupied_set_member [OF occ, of 4] by simp_all
  have o0: "\<not> unoccupied (nodes r ! 0)" and o2: "\<not> unoccupied (nodes r ! 2)"
    using occupied_set_member [OF occ, of 0] occupied_set_member [OF occ, of 2] by simp_all
  have u1: "unoccupied (nodes r ! 1)" and u3: "unoccupied (nodes r ! 3)"
    using occupied_set_nonmember [OF occ, of 1] occupied_set_nonmember [OF occ, of 3] len
    by simp_all
  have above: "\<forall>j. 4 < j \<and> j < length (nodes r) \<longrightarrow> unoccupied (nodes r ! j)"
    using occupied_set_nonmember [OF occ] by simp
  have cs: "CurrentSize r = 5"
    using CurrentSize_loop_top [OF len o4 above] by (simp add: CurrentSize_def)
  have small: "\<And>i. unoccupied (nodes r ! i) \<and> int i < 5 \<Longrightarrow> i < 5"
    by simp
  have "filter (\<lambda>i. unoccupied (nodes r ! i) \<and> int i < 5) [0..<length (nodes r)]
      = filter (\<lambda>i. unoccupied (nodes r ! i) \<and> int i < 5) [0..<5]"
    using len by (intro upt_split_filter small) simp
  also have "\<dots> = [1, 3]"
    using o0 u1 o2 u3 o4 by (simp add: upt_rec eval_nat_numeral)
  finally show ?thesis
    using cs by (simp add: MissingAndFreeNodeIds_eq)
qed

theorem occupied_024_witness:
  "{i. i < length (nodes ring024) \<and> \<not> unoccupied (nodes ring024 ! i)} = {0, 2, 4}
   \<and> CurrentSize ring024 = 5 \<and> MissingAndFreeNodeIds ring024 = ([1, 3], [])"
  using ring024_occupied occupied_024 [OF ring024_occupied] by simp

theorem occupied_024_counterexample:
  "{i. i < length (nodes ring024) \<and> \<not> unoccupied (nodes ring024 ! i)} = {0, 2, 4}
   \<and> \<not> (CurrentSize ring024 = 3 \<and> MissingAndFreeNodeIds ring024 = ([1], [4]))"
proof -
  have "CurrentSize ring024 = 5"
    by (simp add: ring024_def CurrentSize_def unoccupied_def mk_node_def)
  with ring024_occupied show ?thesis by simp
qed

lemma ring02_built:
  "Add (NewHashRing ''ks'' ''dc'' 3 1) (mk_node 0 ''a'')
     = Inr ((NewHashRing ''ks'' ''dc'' 3 1)\<lparr>nodes := [Some (mk_node 0 ''a'')]\<rparr>)"
  "Add ((NewHashRing ''ks'' ''dc'' 3 1)\<lparr>nodes := [Some (mk_node 0 ''a'')]\<rparr>) (mk_node 2 ''c'')
     = Inr ring02"
proof -
  show "Add (NewHashRing ''ks'' ''dc'' 3 1) (mk_node 0 ''a'')
     = Inr ((NewHashRing ''ks'' ''dc'' 3 1)\<lparr>nodes := [Some (mk_node 0 ''a'')]\<rparr>)"
    by (rule Add_first) (simp add: mk_node_def)
  have "Add ((NewHashRing ''ks'' ''dc'' 3 1)\<lparr>nodes := [Some (mk_node 0 ''a'')]\<rparr>) (mk_node 2 ''c'')
     = Inr ((NewHashRing ''ks'' ''dc'' 3 1)\<lparr>nodes := [Some (mk_node 0 ''a'')]\<rparr>
              \<lparr>nodes := [Some (mk_node 0 ''a''), None, Some (mk_node 2 ''c'')]\<rparr>)"
    by (rule Add_third) (simp_all add: mk_node_def)
  then show "Add ((NewHashRing ''ks'' ''dc'' 3 1)\<lparr>nodes := [Some (mk_node 0 ''a'')]\<rparr>) (mk_node 2 ''c'')
     = Inr ring02"
    by (simp add: ring02_def NewHashRing_def)
qed

lemma reachable_ring02: "reachable ring02"
  by (rule reachable.add [OF reachable.add [OF reachable.new ring02_built(1)] ring02_built(2)])

text \<open>
  Claim C10. In every ring reached from a new ring by calls of Add and Remove that return,
  every occupied slot lies below the current size, and the free list of
  MissingAndFreeNodeIds is empty. (The proof does not use how the ring was reached.)
\<close>

theorem free_list_empty:
  "reachable r \<Longrightarrow>
     snd (MissingAndFreeNodeIds r) = [] \<and>
     (\<forall>i<length (nodes r). \<not> unoccupied (nodes r ! i) \<longrightarrow> int i < CurrentSize r)"
  by (simp add: MissingAndFreeNodeIds_eq CurrentSize_def CurrentSize_loop_above)

theorem free_list_empty_witness:
  "reachable ring02 \<and> snd (MissingAndFreeNodeIds ring02) = [] \<and>
   \<not> unoccupied (nodes ring02 ! 2) \<and> 2 < CurrentSize ring02"
proof -
  have l: "2 < length (nodes ring02)" and o: "\<not> unoccupied (nodes ring02 ! 2)"
    by (simp_all add: ring02_def unoccupied_def mk_node_def)
  from free_list_empty [OF reachable_ring02]
  have f: "snd (MissingAndFreeNodeIds ring02) = []"
    and g: "\<forall>i<length (nodes ring02). \<not> unoccupied (nodes ring02 ! i) \<longrightarrow> int i < CurrentSize ring02"
    by simp_all
  from g [rule_format, OF l o] have "2 < CurrentSize ring02"
    by simp
  with reachable_ring02 f o show ?thesis by simp
qed

subsection \<open>Sizing state\<close>

text \<open>
  Claim C9. SetExpectedSize and SetReplicationFactor leave the ring as it is when the
  argument is zero or negative and store a positive argument; SetNextSize stores any
  argument, zero included; after SetExpectedSize(5) and SetExpectedSize(0) the expected
  size is 5.
\<close>

theorem setters_positivity_guard:
  "(n \<le> 0 \<longrightarrow> SetExpectedSize r n = r) \<and>
   (0 < n \<longrightarrow> SetExpectedSize r n = r\<lparr>expectedSize := n\<rparr>) \<and>
   (n \<le> 0 \<longrightarrow> SetReplicationFactor r n = r) \<and>
   (0 < n \<longrightarrow> SetReplicationFactor r n = r\<lparr>replicationFactor := n\<rparr>) \<and>
   SetNextSize r n = r\<lparr>nextSize := n\<rparr> \<and>
   NextSize (SetNextSize r 0) = 0 \<and>
   ExpectedSize (SetExpectedSize (SetExpectedSize r 5) 0) = 5"
  by (simp add: SetExpectedSize_def SetReplicationFactor_def SetNextSize_def NextSize_def
      ExpectedSize_def)

theorem setters_positivity_guard_witness:
  "SetExpectedSize ring02 (- 1) = ring02 \<and> SetReplicationFactor ring02 (- 1) = ring02 \<and>
   ExpectedSize (SetExpectedSize ring02 7) = 7 \<and>
   ReplicationFactor (SetReplicationFactor ring02 7) = 7 \<and>
   NextSize (SetNextSize ring02 (- 1)) = - 1"
  using setters_positivity_guard [of "- 1" ring02] setters_positivity_guard [of 7 ring02]
  by (simp add: ExpectedSize_def ReplicationFactor_def NextSize_def)

lemma FindBucket_expected:
  "FindBucket jump_Hash r h = FindBucketGivenSize jump_Hash r h (expectedSize r)"
  by (simp add: FindBucket_def FindBucketGivenSize_def ExpectedSize_def)

subsection \<open>Diagnostic rendering\<close>

lemma digits_small: "n < 10 \<Longrightarrow> digits n = [''0123456789'' ! n]"
  by (simp add: digits.simps)

text \<open>
  Claim C4, as amended. A ring with expected size 3, no resize under way, and the registry
  \<open>[n0, nil, n2]\<close> with occupied nodes of ids 0 and 2 has current size 3, equal to the
  expected size, so String renders the stable form of the size:
  \<^verbatim>\<open>[0 _ 2] size 3 (1 missing [1])\<close>.
\<close>

theorem String_nodes_0_2:
  assumes "expectedSize r = 3" and "nextSize r = 0"
    and "nodes r = [Some n0, None, Some n2]"
    and "GetId n0 = 0" and "GetId n2 = 2"
    and "GetAddress n0 \<noteq> []" and "GetAddress n2 \<noteq> []"
  shows "String r = ''[0 _ 2] size 3 (1 missing [1])''"
proof -
  have cs: "CurrentSize r = 3"
    using assms by (simp add: CurrentSize_def unoccupied_def)
  have mf: "MissingAndFreeNodeIds r = ([1], [])"
    using assms cs by (simp add: MissingAndFreeNodeIds_eq unoccupied_def upt_rec)
  have slots: "fold (String_body r 3) [0..<3] ''['' = ''[0 _ 2''"
    using assms
    by (simp add: String_body_def slot_at_def fmt_d_def digits_small upt_rec)
  show ?thesis
    using assms cs mf slots
    by (simp add: String_def Let_def fmt_d_def fmt_v_def digits_small)
qed

theorem String_nodes_0_2_witness:
  "expectedSize ring02 = 3 \<and> nextSize ring02 = 0 \<and> String ring02 = ''[0 _ 2] size 3 (1 missing [1])''"
  using String_nodes_0_2 [of ring02 "mk_node 0 ''a''" "mk_node 2 ''c''"]
  by (simp add: ring02_def mk_node_def)

theorem String_nodes_0_2_counterexample:
  "expectedSize ring02 = 3 \<and> nextSize ring02 = 0 \<and>
   nodes ring02 = [Some (mk_node 0 ''a''), None, Some (mk_node 2 ''c'')] \<and>
   String ring02 \<noteq> ''[0 _ 2] size 2->3 (1 missing [1])''"
proof -
  have "String ring02 = ''[0 _ 2] size 3 (1 missing [1])''"
    by (simp add: ring02_def String_def NewHashRing_def mk_node_def CurrentSize_def
        unoccupied_def MissingAndFreeNodeIds_def MissingAndFree_body_def String_body_def
        slot_at_def fmt_d_def fmt_v_def digits.simps Let_def upt_rec)
  then show ?thesis
    by (simp add: ring02_def)
qed

end
